theory Spec2Isabelle
  imports Main "HOL-Library.Sublist"
begin

section \<open>Regular expressions of the scripts and the forms\<close>

text \<open>
  The sources test strings against regular-expression literals: the stack-deletion script
  matches the operator's reply against \<^verbatim>\<open>^[Yy][Ee][Ss]$\<close>, the sign-up form tests its
  fields against \<^verbatim>\<open>/^[^\s@]+@[^\s@]+\.[^\s@]+$/\<close> and four lookahead patterns. Only a
  small fragment occurs: single character classes, a class under \<^verbatim>\<open>*\<close> or \<^verbatim>\<open>+\<close>, the two
  anchors and a positive lookahead. A pattern is the list of its items, in order.
\<close>

datatype 'c item =
    One "'c \<Rightarrow> bool"
  | Star "'c \<Rightarrow> bool"
  | Plus "'c \<Rightarrow> bool"
  | Bol
  | Eol
  | Ahead "'c item list"

text \<open>
  \<open>match_here p b s\<close>: the pattern \<open>p\<close> matches a prefix of \<open>s\<close>, where \<open>s\<close> is what is left of
  the subject and \<open>b\<close> says that nothing of the subject has been passed yet. A starred class
  first tries to take one more character and falls back to taking none (backtracking).
\<close>

fun match_here :: "'c item list \<Rightarrow> bool \<Rightarrow> 'c list \<Rightarrow> bool" where
  "match_here [] b s = True"
| "match_here (One p # r) b [] = False"
| "match_here (One p # r) b (c # cs) = (if p c then match_here r False cs else False)"
| "match_here (Star p # r) b [] = match_here r b []"
| "match_here (Star p # r) b (c # cs) =
     (if p c \<and> match_here (Star p # r) False cs then True else match_here r b (c # cs))"
| "match_here (Plus p # r) b [] = False"
| "match_here (Plus p # r) b (c # cs) = (if p c then match_here (Star p # r) False cs else False)"
| "match_here (Bol # r) b s = (if b then match_here r b s else False)"
| "match_here (Eol # r) b s = (if s = [] then match_here r b s else False)"
| "match_here (Ahead a # r) b s = (if match_here a b s then match_here r b s else False)"

text \<open>
  An unanchored search, as \<^verbatim>\<open>RegExp.prototype.test\<close> and bash's \<^verbatim>\<open>=~\<close> do it: the pattern is
  tried at every position of the subject, the end included.
\<close>

fun search :: "'c item list \<Rightarrow> bool \<Rightarrow> 'c list \<Rightarrow> bool" where
  "search p b [] = match_here p b []"
| "search p b (c # cs) = (if match_here p b (c # cs) then True else search p False cs)"

definition test :: "'c item list \<Rightarrow> 'c list \<Rightarrow> bool" where
  "test p s = search p True s"

section \<open>Shell scripts against the cloud services\<close>

text \<open>
  The commands the two CloudFormation scripts run. Every \<^verbatim>\<open>aws\<close> command of the scripts
  carries the fixed stack name \<^verbatim>\<open>cognito-login-stack\<close> and \<^verbatim>\<open>--region ${REGION}\<close>; the three
  change-set commands carry the same change-set name. These fixed arguments are left
  out; the arguments that come from earlier output are kept.
\<close>

datatype cmd =
    ValidateTemplate
  | DescribeStacks
  | CreateChangeSet
  | WaitChangeSetCreateComplete
  | ExecuteChangeSet
  | WaitStackUpdateComplete
  | CreateStack
  | WaitStackCreateComplete
  | DescribeOutput string
  | WriteEnvProduction string string string
  | Cd string
  | NpmInstall
  | NpmRunBuild
  | S3Sync string
  | S3CpIndex string
  | CreateInvalidation string
  | WaitInvalidationCompleted string string
  | S3RmRecursive string
  | DeleteStack
  | WaitStackDeleteComplete

text \<open>
  What a command answers is not decided by the scripts: it is a parameter. A service maps
  the commands run so far and the command run now to the command's exit status and the
  text it prints on standard output (as a command substitution captures it, trailing
  newlines removed). A run is the list of the commands it ran and the exit status of the
  script.
\<close>

type_synonym service = "cmd list \<Rightarrow> cmd \<Rightarrow> nat \<times> string"

type_synonym run = "cmd list \<times> nat"

text \<open>
  Both scripts start with \<^verbatim>\<open>set -e\<close>: a command that fails outside a condition ends the
  script with the command's exit status. \<open>exec aws c tr k\<close> runs \<open>c\<close> after the commands
  \<open>tr\<close> and goes on with \<open>k\<close>, which gets the captured output.
\<close>

definition exec :: "service \<Rightarrow> cmd \<Rightarrow> cmd list \<Rightarrow> (string \<Rightarrow> cmd list \<Rightarrow> run) \<Rightarrow> run" where
  "exec aws c tr k =
     (if fst (aws tr c) = 0 then k (snd (aws tr c)) (tr @ [c]) else (tr @ [c], fst (aws tr c)))"

subsection \<open>The stack-deletion script\<close>

text \<open>\<^verbatim>\<open>^[Yy][Ee][Ss]$\<close>\<close>

definition yes_pattern :: "char item list" where
  "yes_pattern =
     [Bol,
      One (\<lambda>c. c = CHR ''Y'' \<or> c = CHR ''y''),
      One (\<lambda>c. c = CHR ''E'' \<or> c = CHR ''e''),
      One (\<lambda>c. c = CHR ''S'' \<or> c = CHR ''s''),
      Eol]"

text \<open>
  \<^verbatim>\<open>read -p "Are you sure you want to continue? (yes/no): " -r\<close> leaves the line in
  \<^verbatim>\<open>REPLY\<close>, untrimmed; the input is \<open>None\<close> when it ends before a line is complete, where
  \<^verbatim>\<open>read\<close> fails and \<^verbatim>\<open>set -e\<close> ends the script. A reply that does not match ends the script
  with \<^verbatim>\<open>exit 0\<close>. The bucket name is what the query prints, or nothing when the query
  fails (\<^verbatim>\<open>2>/dev/null || echo ""\<close>); the bucket is emptied only when the name is not empty,
  and a failure to empty it is ignored (\<^verbatim>\<open>|| true\<close>).
\<close>

definition destroy :: "service \<Rightarrow> string option \<Rightarrow> run" where
  "destroy aws input =
     (case input of
        None \<Rightarrow> ([], 1)
      | Some REPLY \<Rightarrow>
          if \<not> test yes_pattern REPLY then ([], 0)
          else
            let BUCKET_NAME = snd (aws [] (DescribeOutput ''WebsiteBucketName''));
                tr = [DescribeOutput ''WebsiteBucketName''] @
                     (if BUCKET_NAME \<noteq> [] then [S3RmRecursive BUCKET_NAME] else [])
            in exec aws DeleteStack tr (\<lambda>_ tr.
               exec aws WaitStackDeleteComplete tr (\<lambda>_ tr. (tr, 0))))"

subsection \<open>The deployment script\<close>

text \<open>
  Step 2: \<^verbatim>\<open>if aws cloudformation describe-stacks ... 2>/dev/null; then\<close>. The exit status of
  the describe call alone selects the branch; as the condition of an \<^verbatim>\<open>if\<close> the call is
  exempt from \<^verbatim>\<open>set -e\<close>, and what it prints is not captured. A stack that is found is
  updated through a change set, otherwise the stack is created; both branches wait for
  the stack. The test of \<^verbatim>\<open>$?\<close> that follows the branches is reached only with status 0, the
  one before it likewise, so their \<^verbatim>\<open>else\<close> parts never run.
\<close>

definition deploy_stack :: "service \<Rightarrow> cmd list \<Rightarrow> (cmd list \<Rightarrow> run) \<Rightarrow> run" where
  "deploy_stack aws tr k =
     (if fst (aws tr DescribeStacks) = 0 then
        exec aws CreateChangeSet (tr @ [DescribeStacks]) (\<lambda>_ tr.
        exec aws WaitChangeSetCreateComplete tr (\<lambda>_ tr.
        exec aws ExecuteChangeSet tr (\<lambda>_ tr.
        exec aws WaitStackUpdateComplete tr (\<lambda>_ tr. k tr))))
      else
        exec aws CreateStack (tr @ [DescribeStacks]) (\<lambda>_ tr.
        exec aws WaitStackCreateComplete tr (\<lambda>_ tr. k tr)))"

text \<open>
  Step 3: five queries of the form
  \<^verbatim>\<open>--query 'Stacks[0].Outputs[?OutputKey==`UserPoolId`].OutputValue' --output text\<close>, each
  captured into a variable. The variables are used as they come.
\<close>

definition retrieve_outputs ::
  "service \<Rightarrow> cmd list \<Rightarrow> (string \<Rightarrow> string \<Rightarrow> string \<Rightarrow> string \<Rightarrow> string \<Rightarrow> cmd list \<Rightarrow> run) \<Rightarrow> run" where
  "retrieve_outputs aws tr k =
     exec aws (DescribeOutput ''UserPoolId'') tr (\<lambda>USER_POOL_ID tr.
     exec aws (DescribeOutput ''UserPoolClientId'') tr (\<lambda>CLIENT_ID tr.
     exec aws (DescribeOutput ''WebsiteBucketName'') tr (\<lambda>BUCKET_NAME tr.
     exec aws (DescribeOutput ''CloudFrontDistributionId'') tr (\<lambda>DISTRIBUTION_ID tr.
     exec aws (DescribeOutput ''WebsiteURL'') tr (\<lambda>WEBSITE_URL tr.
     k USER_POOL_ID CLIENT_ID BUCKET_NAME DISTRIBUTION_ID WEBSITE_URL tr)))))"

text \<open>
  Steps 4 to 8: write \<^verbatim>\<open>frontend/.env.production\<close>, install and build the front end,
  synchronise the build directory to the bucket, copy \<^verbatim>\<open>index.html\<close>, invalidate the
  distribution and wait for the invalidation. The website URL is only printed.
\<close>

definition frontend ::
  "string \<Rightarrow> service \<Rightarrow> string \<Rightarrow> string \<Rightarrow> string \<Rightarrow> string \<Rightarrow> string \<Rightarrow> cmd list \<Rightarrow> run" where
  "frontend REGION aws USER_POOL_ID CLIENT_ID BUCKET_NAME DISTRIBUTION_ID WEBSITE_URL tr =
     exec aws (WriteEnvProduction USER_POOL_ID CLIENT_ID REGION) tr (\<lambda>_ tr.
     exec aws (Cd ''frontend'') tr (\<lambda>_ tr.
     exec aws NpmInstall tr (\<lambda>_ tr.
     exec aws (Cd ''..'') tr (\<lambda>_ tr.
     exec aws (Cd ''frontend'') tr (\<lambda>_ tr.
     exec aws NpmRunBuild tr (\<lambda>_ tr.
     exec aws (Cd ''..'') tr (\<lambda>_ tr.
     exec aws (S3Sync BUCKET_NAME) tr (\<lambda>_ tr.
     exec aws (S3CpIndex BUCKET_NAME) tr (\<lambda>_ tr.
     exec aws (CreateInvalidation DISTRIBUTION_ID) tr (\<lambda>INVALIDATION_ID tr.
     exec aws (WaitInvalidationCompleted DISTRIBUTION_ID INVALIDATION_ID) tr (\<lambda>_ tr.
     (tr, 0))))))))))))"

definition deploy :: "string \<Rightarrow> service \<Rightarrow> run" where
  "deploy REGION aws =
     exec aws ValidateTemplate [] (\<lambda>_ tr.
     deploy_stack aws tr (\<lambda>tr.
     retrieve_outputs aws tr (frontend REGION aws)))"

subsection \<open>Step 7 of the deployment script: what reaches the bucket\<close>

text \<open>
  \<^verbatim>\<open>aws s3 sync frontend/build/ s3://${BUCKET_NAME}/ --delete
    --cache-control "public, max-age=31536000"
    --exclude "index.html" --exclude "asset-manifest.json" --exclude "service-worker.js"\<close>
  followed by
  \<^verbatim>\<open>aws s3 cp frontend/build/index.html s3://${BUCKET_NAME}/index.html
    --cache-control "no-cache, no-store, must-revalidate"\<close>.
  An upload is a key with the \<^verbatim>\<open>Cache-Control\<close> value it is stored under. The exclude
  patterns hold no wildcard, so a file is excluded when its path below the build directory
  is one of the three. Which of the other files the synchronisation transfers (those new
  or changed against the bucket) is the tool's decision and a parameter here; the
  transfers are listed in the order of the files, and the removals of \<^verbatim>\<open>--delete\<close> are no
  uploads and are left out. The copy runs after the synchronisation has ended, and only
  when that succeeded; it fails when the build holds no \<^verbatim>\<open>index.html\<close>.
\<close>

definition long_cache :: string where
  "long_cache = ''public, max-age=31536000''"

definition no_cache :: string where
  "no_cache = ''no-cache, no-store, must-revalidate''"

definition sync_excludes :: "string list" where
  "sync_excludes = [''index.html'', ''asset-manifest.json'', ''service-worker.js'']"

definition s3_sync :: "string list \<Rightarrow> (string \<Rightarrow> bool) \<Rightarrow> (string \<times> string) list" where
  "s3_sync build transfers =
     map (\<lambda>f. (f, long_cache)) (filter (\<lambda>f. f \<notin> set sync_excludes \<and> transfers f) build)"

definition s3_cp_index :: "string list \<Rightarrow> (string \<times> string) list" where
  "s3_cp_index build = (if ''index.html'' \<in> set build then [(''index.html'', no_cache)] else [])"

definition publish :: "string list \<Rightarrow> (string \<Rightarrow> bool) \<Rightarrow> (string \<times> string) list" where
  "publish build transfers = s3_sync build transfers @ s3_cp_index build"

section \<open>The sign-up form\<close>

text \<open>
  A JavaScript string is a sequence of UTF-16 code units; \<^verbatim>\<open>length\<close> counts them and a
  regular expression without the \<^verbatim>\<open>u\<close> flag matches them one by one.
\<close>

type_synonym jsstring = "nat list"

definition js :: "string \<Rightarrow> jsstring" where
  "js s = map of_char s"

text \<open>
  The class \<^verbatim>\<open>\s\<close> and the characters \<^verbatim>\<open>String.prototype.trim\<close> strips: white space
  (TAB, VT, FF, SP, NBSP, ZWNBSP and the space separators U+1680, U+2000 to U+200A,
  U+202F, U+205F, U+3000) and the line terminators LF, CR, U+2028, U+2029.
\<close>

definition white_space :: "nat \<Rightarrow> bool" where
  "white_space c =
     (c \<in> set [9, 10, 11, 12, 13, 32, 160, 5760, 8232, 8233, 8239, 8287, 12288, 65279]
      \<or> (8192 \<le> c \<and> c \<le> 8202))"

definition trim :: "jsstring \<Rightarrow> jsstring" where
  "trim s = rev (dropWhile white_space (rev (dropWhile white_space s)))"

text \<open>\<^verbatim>\<open>.\<close> matches any code unit but a line terminator.\<close>

definition dot :: "nat \<Rightarrow> bool" where
  "dot c = (c \<notin> set [10, 13, 8232, 8233])"

text \<open>\<^verbatim>\<open>[^\s@]\<close>; the code unit of \<^verbatim>\<open>@\<close> is 64, that of \<^verbatim>\<open>.\<close> is 46.\<close>

definition not_space_or_at :: "nat \<Rightarrow> bool" where
  "not_space_or_at c = (\<not> white_space c \<and> c \<noteq> 64)"

text \<open>\<^verbatim>\<open>/^[^\s@]+@[^\s@]+\.[^\s@]+$/\<close>\<close>

definition email_pattern :: "nat item list" where
  "email_pattern =
     [Bol, Plus not_space_or_at, One (\<lambda>c. c = 64), Plus not_space_or_at, One (\<lambda>c. c = 46),
      Plus not_space_or_at, Eol]"

text \<open>\<^verbatim>\<open>[a-z]\<close>, \<^verbatim>\<open>[A-Z]\<close>, \<^verbatim>\<open>\d\<close> and \<^verbatim>\<open>[!@#$%^&*]\<close>\<close>

definition lowercase :: "nat \<Rightarrow> bool" where
  "lowercase c = (97 \<le> c \<and> c \<le> 122)"

definition uppercase :: "nat \<Rightarrow> bool" where
  "uppercase c = (65 \<le> c \<and> c \<le> 90)"

definition digit :: "nat \<Rightarrow> bool" where
  "digit c = (48 \<le> c \<and> c \<le> 57)"

definition special :: "nat \<Rightarrow> bool" where
  "special c = (c \<in> set [33, 64, 35, 36, 37, 94, 38, 42])"

text \<open>\<^verbatim>\<open>/(?=.*[a-z])/\<close> and its three siblings: a lookahead for the class after any run of \<^verbatim>\<open>.\<close>\<close>

definition containing :: "(nat \<Rightarrow> bool) \<Rightarrow> nat item list" where
  "containing cls = [Ahead [Star dot, One cls]]"

record FormData =
  firstName :: jsstring
  lastName :: jsstring
  email :: jsstring
  password :: jsstring
  confirmPassword :: jsstring

text \<open>The component's state: \<^verbatim>\<open>formData\<close>, \<^verbatim>\<open>error\<close> and \<^verbatim>\<open>loading\<close>.\<close>

record SignUpState =
  formData :: FormData
  error :: string
  loading :: bool

text \<open>
  \<^verbatim>\<open>validateForm\<close> reads the form data and either sets the error and returns false or
  returns true; the checks are in the order of the source.
\<close>

definition validateForm :: "SignUpState \<Rightarrow> bool \<times> SignUpState" where
  "validateForm st =
     (let fd = formData st in
      if trim (firstName fd) = [] then (False, st\<lparr>error := ''First name is required''\<rparr>)
      else if trim (lastName fd) = [] then (False, st\<lparr>error := ''Last name is required''\<rparr>)
      else if trim (email fd) = [] then (False, st\<lparr>error := ''Email is required''\<rparr>)
      else if \<not> test email_pattern (email fd)
        then (False, st\<lparr>error := ''Please enter a valid email address''\<rparr>)
      else if length (password fd) < 8
        then (False, st\<lparr>error := ''Password must be at least 8 characters long''\<rparr>)
      else if \<not> test (containing lowercase) (password fd)
        then (False, st\<lparr>error := ''Password must contain at least one lowercase letter''\<rparr>)
      else if \<not> test (containing uppercase) (password fd)
        then (False, st\<lparr>error := ''Password must contain at least one uppercase letter''\<rparr>)
      else if \<not> test (containing digit) (password fd)
        then (False, st\<lparr>error := ''Password must contain at least one number''\<rparr>)
      else if \<not> test (containing special) (password fd)
        then (False, st\<lparr>error :=
               ''Password must contain at least one special character (!@#$%^&*)''\<rparr>)
      else if password fd \<noteq> confirmPassword fd
        then (False, st\<lparr>error := ''Passwords do not match''\<rparr>)
      else (True, st))"

text \<open>
  What \<^verbatim>\<open>handleSubmit\<close> does to the outside: the \<^verbatim>\<open>signUp\<close> call (username, password and
  the attributes email, given_name, family_name), the navigation with the email in its
  state, and the \<^verbatim>\<open>console.error\<close> of a rejected call. How \<^verbatim>\<open>signUp\<close> ends is a parameter:
  \<open>None\<close> when it resolves, otherwise the name and the message of the error it rejects
  with (an empty message stands for a missing one).
\<close>

datatype effect =
    SignUp jsstring jsstring jsstring jsstring jsstring
  | Navigate string jsstring
  | ConsoleError

definition or_else :: "string \<Rightarrow> string \<Rightarrow> string" where
  "or_else message fallback = (if message = [] then fallback else message)"

text \<open>The error the \<^verbatim>\<open>catch\<close> block sets, by \<^verbatim>\<open>err.name\<close>.\<close>

definition rejected_error :: "string \<Rightarrow> string \<Rightarrow> string" where
  "rejected_error name message =
     (if name = ''UsernameExistsException'' then
        ''An account with this email already exists. Please log in or use a different email.''
      else if name = ''InvalidPasswordException'' then
        or_else message ''Password does not meet requirements''
      else if name = ''InvalidParameterException'' then
        or_else message ''Invalid input. Please check your information and try again.''
      else or_else message ''An error occurred during sign up. Please try again.'')"

text \<open>
  \<^verbatim>\<open>handleSubmit\<close> clears the error, returns at once when \<^verbatim>\<open>validateForm\<close> is false, and
  otherwise sets \<^verbatim>\<open>loading\<close>, awaits \<^verbatim>\<open>signUp\<close> and clears \<^verbatim>\<open>loading\<close> in the \<^verbatim>\<open>finally\<close> block.
\<close>

definition handleSubmit :: "SignUpState \<Rightarrow> (string \<times> string) option \<Rightarrow> SignUpState \<times> effect list" where
  "handleSubmit st0 rejection =
     (let st1 = st0\<lparr>error := []\<rparr>;
          valid = fst (validateForm st1);
          st2 = snd (validateForm st1)
      in if \<not> valid then (st2, [])
         else
           let st3 = st2\<lparr>loading := True\<rparr>;
               fd = formData st3;
               call = SignUp (email fd) (password fd) (email fd) (firstName fd) (lastName fd)
           in (case rejection of
                 None \<Rightarrow> (st3\<lparr>loading := False\<rparr>, [call, Navigate ''/verify-email'' (email fd)])
               | Some err \<Rightarrow>
                   (st3\<lparr>error := rejected_error (fst err) (snd err), loading := False\<rparr>,
                    [call, ConsoleError])))"

section \<open>The API key of the user-management deployment\<close>

text \<open>
  Modelled from the spec: the deployment script of the user-management API, which looks
  the API key up, generates it, stores it and reports it, is not among the sources; the
  sources hold only its description (the README that documents the
  \<^verbatim>\<open>kiro-user-management-api\<close> stack). The definitions of this section follow the spec's
  Credential Manager, section 4.2, and take the numbers the README gives.
\<close>

datatype credential_error = ValidationError

text \<open>
  Modelled from the spec: "documented minimum 20 characters", the policy an operator's
  own credential is validated against.
\<close>

definition minimum_length :: nat where
  "minimum_length = 20"

definition meets_policy :: "string \<Rightarrow> bool" where
  "meets_policy credential = (minimum_length \<le> length credential)"

text \<open>
  Modelled from the spec: the generator, "default target 32 alphanumeric characters using
  a cryptographically strong random source". The random source is a parameter, a sequence
  of numbers; each of the 32 characters is the letter or digit the next number selects.
\<close>

definition alphabet :: string where
  "alphabet = ''ABCDEFGHIJKLMNOPQRSTUVWXYZabcdefghijklmnopqrstuvwxyz0123456789''"

definition target_length :: nat where
  "target_length = 32"

definition generateCredential :: "(nat \<Rightarrow> nat) \<Rightarrow> string" where
  "generateCredential random =
     map (\<lambda>i. alphabet ! (random i mod length alphabet)) [0..<target_length]"

text \<open>
  Modelled from the spec: the write-once store of section 4.2, with the secret store as
  an argument. A credential found at the path is returned unchanged and nothing is
  written (first bullet); otherwise the given value is persisted at the path and
  returned. The result is the credential, the store afterwards, and the writes issued
  (path and value).
\<close>

definition persist_once ::
  "(string \<rightharpoonup> string) \<Rightarrow> string \<Rightarrow> string \<Rightarrow>
   (credential_error + string) \<times> (string \<rightharpoonup> string) \<times> (string \<times> string) list" where
  "persist_once store path credential =
     (case store path of
        Some existing \<Rightarrow> (Inr existing, store, [])
      | None \<Rightarrow> (Inr credential, store(path \<mapsto> credential), [(path, credential)]))"

text \<open>
  Modelled from the spec: \<^verbatim>\<open>ensureCredential(path, generator) -> Credential\<close>, with the
  value the operator may supply. A supplied value is validated first: section 7 makes a
  supplied credential that is too short a fatal ValidationError "reported before any
  remote calls are made", so before the store is read. A supplied value that passes is
  "used verbatim instead of generation" (third bullet): it takes the place of the
  generated value, and is "persisted the same way".
\<close>

definition ensureCredential ::
  "(string \<rightharpoonup> string) \<Rightarrow> string \<Rightarrow> string option \<Rightarrow> ((nat \<Rightarrow> nat) \<Rightarrow> string) \<Rightarrow> (nat \<Rightarrow> nat) \<Rightarrow>
   (credential_error + string) \<times> (string \<rightharpoonup> string) \<times> (string \<times> string) list" where
  "ensureCredential store path supplied generator random =
     (case supplied of
        Some v \<Rightarrow>
          if \<not> meets_policy v then (Inl ValidationError, store, [])
          else persist_once store path v
      | None \<Rightarrow> persist_once store path (generator random))"

section \<open>Properties of runs and concrete inputs\<close>

subsection \<open>Stack states and services\<close>

text \<open>
  The four stack states of the specification and the raw status strings the README of the
  user-management deployment sorts into them ("Understanding Stack States"); a string
  the lists do not name has no state.
\<close>

datatype StackState = ABSENT | IN_PROGRESS | SUCCEEDED | FAILED

definition documented_state :: "string \<Rightarrow> StackState option" where
  "documented_state status =
     (if status \<in> set [''CREATE_COMPLETE'', ''UPDATE_COMPLETE''] then Some SUCCEEDED
      else if status \<in> set [''CREATE_FAILED'', ''ROLLBACK_COMPLETE'', ''UPDATE_ROLLBACK_COMPLETE'',
                             ''UPDATE_ROLLBACK_FAILED'', ''DELETE_FAILED''] then Some FAILED
      else if status \<in> set [''CREATE_IN_PROGRESS'', ''UPDATE_IN_PROGRESS'', ''DELETE_IN_PROGRESS'']
      then Some IN_PROGRESS
      else None)"

text \<open>
  A service in which every command succeeds: the stack exists and its description shows
  the given status, an output query prints the value of its key.
\<close>

definition answering :: "string \<Rightarrow> (string \<Rightarrow> string) \<Rightarrow> service" where
  "answering status outputs tr c =
     (case c of
        DescribeStacks \<Rightarrow> (0, status)
      | DescribeOutput key \<Rightarrow> (0, outputs key)
      | CreateInvalidation d \<Rightarrow> (0, ''I2J0I21PCUYOIK'')
      | _ \<Rightarrow> (0, []))"

definition stack_outputs :: "string \<Rightarrow> string" where
  "stack_outputs key =
     (if key = ''UserPoolId'' then ''us-east-1_Ab12Cd34E''
      else if key = ''UserPoolClientId'' then ''7k2m9q4r6s8t0u1v3w5x''
      else if key = ''WebsiteBucketName'' then ''cognito-login-website''
      else if key = ''CloudFrontDistributionId'' then ''E2QWRUHAPOMQZL''
      else if key = ''WebsiteURL'' then ''https://d1234567890abc.cloudfront.net''
      else [])"

text \<open>The stack's outputs with one key missing: its query prints nothing.\<close>

definition without :: "string \<Rightarrow> (string \<Rightarrow> string) \<Rightarrow> string \<Rightarrow> string" where
  "without missing outputs key = (if key = missing then [] else outputs key)"

text \<open>A service in which one command fails with the given status.\<close>

definition failing :: "cmd \<Rightarrow> nat \<Rightarrow> service \<Rightarrow> service" where
  "failing c0 rc aws tr c = (if c = c0 then (rc, []) else aws tr c)"

text \<open>The same service, with another text for the description of the stack.\<close>

definition printing :: "string \<Rightarrow> service \<Rightarrow> service" where
  "printing text aws tr c = (if c = DescribeStacks then (fst (aws tr c), text) else aws tr c)"

text \<open>
  The deployed template resubmitted unchanged: the change set is created, and the wait for
  it fails with status 255, because the service sets a change set without changes to
  \<^verbatim>\<open>FAILED\<close>.
\<close>

definition unchanged_template :: service where
  "unchanged_template =
     failing WaitChangeSetCreateComplete 255 (answering ''UPDATE_COMPLETE'' stack_outputs)"

text \<open>No stack: the queries of its description fail, deleting it and waiting succeed.\<close>

definition no_stack :: service where
  "no_stack tr c =
     (case c of DescribeStacks \<Rightarrow> (254, []) | DescribeOutput key \<Rightarrow> (254, []) | _ \<Rightarrow> (0, []))"

text \<open>A service in which one command fails with the given status after printing a text.\<close>

definition failing_with :: "cmd \<Rightarrow> nat \<Rightarrow> string \<Rightarrow> service \<Rightarrow> service" where
  "failing_with c0 rc printed_text aws tr c = (if c = c0 then (rc, printed_text) else aws tr c)"

text \<open>
  A first deployment: there is no stack until the script has created one, and from then
  on the stack answers with its outputs.
\<close>

definition first_deployment :: service where
  "first_deployment tr c =
     (if CreateStack \<in> set tr then answering ''CREATE_COMPLETE'' stack_outputs tr c
      else no_stack tr c)"

text \<open>The commands of a run that creates the stack and in which nothing fails.\<close>

definition full_create :: "string \<Rightarrow> (string \<Rightarrow> string) \<Rightarrow> cmd list" where
  "full_create REGION outputs =
     [ValidateTemplate, DescribeStacks, CreateStack, WaitStackCreateComplete,
      DescribeOutput ''UserPoolId'', DescribeOutput ''UserPoolClientId'',
      DescribeOutput ''WebsiteBucketName'', DescribeOutput ''CloudFrontDistributionId'',
      DescribeOutput ''WebsiteURL'',
      WriteEnvProduction (outputs ''UserPoolId'') (outputs ''UserPoolClientId'') REGION,
      Cd ''frontend'', NpmInstall, Cd ''..'', Cd ''frontend'', NpmRunBuild, Cd ''..'',
      S3Sync (outputs ''WebsiteBucketName''), S3CpIndex (outputs ''WebsiteBucketName''),
      CreateInvalidation (outputs ''CloudFrontDistributionId''),
      WaitInvalidationCompleted (outputs ''CloudFrontDistributionId'') ''I2J0I21PCUYOIK'']"

text \<open>The commands of a run that updates the stack and in which nothing fails.\<close>

definition full_update :: "string \<Rightarrow> (string \<Rightarrow> string) \<Rightarrow> cmd list" where
  "full_update REGION outputs =
     [ValidateTemplate, DescribeStacks, CreateChangeSet, WaitChangeSetCreateComplete,
      ExecuteChangeSet, WaitStackUpdateComplete,
      DescribeOutput ''UserPoolId'', DescribeOutput ''UserPoolClientId'',
      DescribeOutput ''WebsiteBucketName'', DescribeOutput ''CloudFrontDistributionId'',
      DescribeOutput ''WebsiteURL'',
      WriteEnvProduction (outputs ''UserPoolId'') (outputs ''UserPoolClientId'') REGION,
      Cd ''frontend'', NpmInstall, Cd ''..'', Cd ''frontend'', NpmRunBuild, Cd ''..'',
      S3Sync (outputs ''WebsiteBucketName''), S3CpIndex (outputs ''WebsiteBucketName''),
      CreateInvalidation (outputs ''CloudFrontDistributionId''),
      WaitInvalidationCompleted (outputs ''CloudFrontDistributionId'') ''I2J0I21PCUYOIK'']"

subsection \<open>Properties of runs\<close>

text \<open>
  Every command of \<open>tr\<close> other than the probe of step 2 succeeded, at the point where it
  ran.
\<close>

definition orderly :: "service \<Rightarrow> cmd list \<Rightarrow> bool" where
  "orderly aws tr =
     list_all (\<lambda>i. tr ! i = DescribeStacks \<or> fst (aws (take i tr) (tr ! i)) = 0) [0..<length tr]"

text \<open>
  A run stops at the first command that fails, the probe apart, and takes its status:
  in a run with status 0 every command succeeded; a run with another status ends with a
  command that failed with that status, after commands that all succeeded.
\<close>

definition halts_at_failure :: "service \<Rightarrow> run \<Rightarrow> bool" where
  "halts_at_failure aws r =
     (if snd r = 0 then orderly aws (fst r)
      else fst r \<noteq> [] \<and> orderly aws (butlast (fst r)) \<and> last (fst r) \<noteq> DescribeStacks \<and>
           fst (aws (butlast (fst r)) (last (fst r))) = snd r)"

text \<open>The commands \<open>cs\<close>, run one after the other after \<open>tr\<close>, all succeed.\<close>

fun succeeds :: "service \<Rightarrow> cmd list \<Rightarrow> cmd list \<Rightarrow> bool" where
  "succeeds aws tr [] = True"
| "succeeds aws tr (c # cs) = (fst (aws tr c) = 0 \<and> succeeds aws (tr @ [c]) cs)"

text \<open>
  Step 2 has run the commands \<open>tr\<close> and they succeeded: the validation, and then the
  update path after a probe that found the stack or the create path after one that did
  not.
\<close>

definition stack_done :: "service \<Rightarrow> cmd list \<Rightarrow> bool" where
  "stack_done aws tr =
     (fst (aws [] ValidateTemplate) = 0 \<and>
      (if fst (aws [ValidateTemplate] DescribeStacks) = 0
       then succeeds aws [ValidateTemplate, DescribeStacks]
              [CreateChangeSet, WaitChangeSetCreateComplete, ExecuteChangeSet,
               WaitStackUpdateComplete] \<and>
            tr = [ValidateTemplate, DescribeStacks, CreateChangeSet,
                  WaitChangeSetCreateComplete, ExecuteChangeSet, WaitStackUpdateComplete]
       else succeeds aws [ValidateTemplate, DescribeStacks]
              [CreateStack, WaitStackCreateComplete] \<and>
            tr = [ValidateTemplate, DescribeStacks, CreateStack, WaitStackCreateComplete]))"

text \<open>The five output queries, and what the query number \<open>j\<close> prints when run after \<open>tr\<close>.\<close>

definition output_queries :: "cmd list" where
  "output_queries =
     [DescribeOutput ''UserPoolId'', DescribeOutput ''UserPoolClientId'',
      DescribeOutput ''WebsiteBucketName'', DescribeOutput ''CloudFrontDistributionId'',
      DescribeOutput ''WebsiteURL'']"

definition printed :: "service \<Rightarrow> cmd list \<Rightarrow> nat \<Rightarrow> string" where
  "printed aws tr j = snd (aws (tr @ take j output_queries) (output_queries ! j))"

text \<open>
  The commands after the queries, with what the queries printed in its place: the
  configuration holds the first two texts, the bucket is the third, the distribution
  the fourth; the wait names the invalidation that the command before it printed.
\<close>

definition frontend_steps :: "string \<Rightarrow> service \<Rightarrow> cmd list \<Rightarrow> cmd list" where
  "frontend_steps REGION aws tr =
     [WriteEnvProduction (printed aws tr 0) (printed aws tr 1) REGION,
      Cd ''frontend'', NpmInstall, Cd ''..'', Cd ''frontend'', NpmRunBuild, Cd ''..'',
      S3Sync (printed aws tr 2), S3CpIndex (printed aws tr 2),
      CreateInvalidation (printed aws tr 3)]"

definition invalidation_wait :: "string \<Rightarrow> service \<Rightarrow> cmd list \<Rightarrow> cmd" where
  "invalidation_wait REGION aws tr =
     WaitInvalidationCompleted (printed aws tr 3)
       (snd (aws (tr @ output_queries @ butlast (frontend_steps REGION aws tr))
               (CreateInvalidation (printed aws tr 3))))"

text \<open>
  What the stack-deletion script has run when it comes to the stack delete: the query
  for the bucket's name and, when the query printed a name, the emptying of that bucket.
\<close>

definition before_delete :: "service \<Rightarrow> cmd list" where
  "before_delete aws =
     (if snd (aws [] (DescribeOutput ''WebsiteBucketName'')) = []
      then [DescribeOutput ''WebsiteBucketName'']
      else [DescribeOutput ''WebsiteBucketName'',
            S3RmRecursive (snd (aws [] (DescribeOutput ''WebsiteBucketName'')))])"

definition empties_bucket :: "cmd \<Rightarrow> bool" where
  "empties_bucket c = (case c of S3RmRecursive b \<Rightarrow> True | _ \<Rightarrow> False)"

text \<open>A bucket is emptied before the stack delete is issued.\<close>

definition emptied_before_delete :: "cmd list \<Rightarrow> bool" where
  "emptied_before_delete tr = list_ex empties_bucket (takeWhile (\<lambda>c. c \<noteq> DeleteStack) tr)"

text \<open>The reply is "yes", each letter in either case.\<close>

definition yes_reply :: "string \<Rightarrow> bool" where
  "yes_reply r =
     (case r of
        [a, b, c] \<Rightarrow> (a = CHR ''Y'' \<or> a = CHR ''y'') \<and> (b = CHR ''E'' \<or> b = CHR ''e'') \<and>
                     (c = CHR ''S'' \<or> c = CHR ''s'')
      | _ \<Rightarrow> False)"

subsection \<open>The sign-up form\<close>

text \<open>
  The strings \<^verbatim>\<open>/^[^\s@]+@[^\s@]+\.[^\s@]+$/\<close> denotes: three non-empty runs of code units
  that are neither white space nor \<^verbatim>\<open>@\<close>, the first two separated by \<^verbatim>\<open>@\<close>, the last two
  by a dot.
\<close>

definition email_shape :: "jsstring \<Rightarrow> bool" where
  "email_shape e =
     (\<exists>l d t. e = l @ [64] @ d @ [46] @ t \<and> l \<noteq> [] \<and> d \<noteq> [] \<and> t \<noteq> [] \<and>
        list_all not_space_or_at l \<and> list_all not_space_or_at d \<and> list_all not_space_or_at t)"

text \<open>The conditions on the form data, as the claim lists them.\<close>

definition acceptable :: "FormData \<Rightarrow> bool" where
  "acceptable fd =
     (trim (firstName fd) \<noteq> [] \<and> trim (lastName fd) \<noteq> [] \<and> trim (email fd) \<noteq> [] \<and>
      email_shape (email fd) \<and> 8 \<le> length (password fd) \<and>
      list_ex lowercase (password fd) \<and> list_ex uppercase (password fd) \<and>
      list_ex digit (password fd) \<and> list_ex special (password fd) \<and>
      password fd = confirmPassword fd)"

definition ada :: SignUpState where
  "ada = \<lparr>formData = \<lparr>firstName = js ''Ada'', lastName = js ''Lovelace'',
            email = js ''ada@example.org'', password = js ''Engine#1843'',
            confirmPassword = js ''Engine#1843''\<rparr>,
          error = [], loading = False\<rparr>"

definition ada_mistyped :: SignUpState where
  "ada_mistyped = ada\<lparr>formData := (formData ada)\<lparr>confirmPassword := js ''Engine#1834''\<rparr>\<rparr>"

subsection \<open>Credentials\<close>

definition alphanumeric :: "char \<Rightarrow> bool" where
  "alphanumeric c =
     ((65 \<le> (of_char c :: nat) \<and> (of_char c :: nat) \<le> 90) \<or>
      (97 \<le> (of_char c :: nat) \<and> (of_char c :: nat) \<le> 122) \<or>
      (48 \<le> (of_char c :: nat) \<and> (of_char c :: nat) \<le> 57))"



definition example_location :: string where
  "example_location = ''/kiro/kiro-user-management-api/api-key''"

section \<open>Lemmas on patterns\<close>

lemma search_Bol_False: "search (Bol # p) False s = False"
  by (induction s) simp_all

lemma test_Bol: "test (Bol # p) s = match_here p True s"
  by (cases s) (simp_all add: test_def search_Bol_False)

lemma match_here_One:
  "match_here (One p # r) b s = (\<exists>c cs. s = c # cs \<and> p c \<and> match_here r False cs)"
  by (cases s) simp_all

lemma match_here_Eol: "match_here (Eol # r) b s = (s = [] \<and> match_here r b [])"
  by auto

text \<open>A starred class takes any run of the class, and the rest of the pattern the rest.\<close>

lemma match_here_Star:
  "match_here (Star p # r) b s =
     (\<exists>ys zs. s = ys @ zs \<and> list_all p ys \<and> match_here r (b \<and> ys = []) zs)"
proof (induction s arbitrary: b)
  case Nil
  then show ?case by simp
next
  case (Cons c cs)
  show ?case
  proof
    assume "match_here (Star p # r) b (c # cs)"
    then consider "p c" "match_here (Star p # r) False cs" | "match_here r b (c # cs)"
      by (auto split: if_splits)
    then show "\<exists>ys zs. c # cs = ys @ zs \<and> list_all p ys \<and> match_here r (b \<and> ys = []) zs"
    proof cases
      case 1
      then obtain ys zs where "cs = ys @ zs" "list_all p ys" "match_here r False zs"
        using Cons.IH[of False] by auto
      with 1 show ?thesis
        by (intro exI[of _ "c # ys"] exI[of _ zs]) simp
    next
      case 2
      then show ?thesis by (intro exI[of _ "[]"] exI[of _ "c # cs"]) simp
    qed
  next
    assume "\<exists>ys zs. c # cs = ys @ zs \<and> list_all p ys \<and> match_here r (b \<and> ys = []) zs"
    then obtain ys zs where *: "c # cs = ys @ zs" "list_all p ys" "match_here r (b \<and> ys = []) zs"
      by blast
    show "match_here (Star p # r) b (c # cs)"
    proof (cases ys)
      case Nil
      with * have "match_here r b (c # cs)" by simp
      then show ?thesis by simp
    next
      case (Cons y ys')
      with * have "p c" "cs = ys' @ zs" "list_all p ys'" "match_here r False zs" by auto
      then have "match_here (Star p # r) False cs"
        using Cons.IH[of False] by auto
      with \<open>p c\<close> show ?thesis by simp
    qed
  qed
qed

lemma match_here_Plus:
  "match_here (Plus p # r) b s =
     (\<exists>ys zs. s = ys @ zs \<and> ys \<noteq> [] \<and> list_all p ys \<and> match_here r False zs)"
proof (cases s)
  case Nil
  then show ?thesis by simp
next
  case (Cons c cs)
  have "match_here (Plus p # r) b (c # cs) = (p c \<and> match_here (Star p # r) False cs)"
    by simp
  also have "\<dots> = (p c \<and> (\<exists>ys zs. cs = ys @ zs \<and> list_all p ys \<and> match_here r False zs))"
    by (simp add: match_here_Star)
  also have "\<dots> = (\<exists>ys zs. c # cs = ys @ zs \<and> ys \<noteq> [] \<and> list_all p ys \<and> match_here r False zs)"
  proof
    assume "p c \<and> (\<exists>ys zs. cs = ys @ zs \<and> list_all p ys \<and> match_here r False zs)"
    then obtain ys zs where "p c" "cs = ys @ zs" "list_all p ys" "match_here r False zs" by blast
    then show "\<exists>ys zs. c # cs = ys @ zs \<and> ys \<noteq> [] \<and> list_all p ys \<and> match_here r False zs"
      by (intro exI[of _ "c # ys"] exI[of _ zs]) simp
  next
    assume "\<exists>ys zs. c # cs = ys @ zs \<and> ys \<noteq> [] \<and> list_all p ys \<and> match_here r False zs"
    then obtain ys zs where *: "c # cs = ys @ zs" "ys \<noteq> []" "list_all p ys" "match_here r False zs"
      by blast
    then obtain ys' where "ys = c # ys'" by (cases ys) auto
    with * show "p c \<and> (\<exists>ys zs. cs = ys @ zs \<and> list_all p ys \<and> match_here r False zs)"
      by auto
  qed
  finally show ?thesis using Cons by simp
qed

lemma test_yes_pattern: "test yes_pattern r = yes_reply r"
  unfolding yes_pattern_def test_Bol match_here_One match_here_Eol yes_reply_def
  by (simp split: list.splits)

lemma test_email_pattern: "test email_pattern e = email_shape e"
proof
  assume "test email_pattern e"
  then show "email_shape e"
    unfolding email_pattern_def test_Bol match_here_Plus match_here_One match_here_Eol
      email_shape_def
    by auto
next
  assume "email_shape e"
  then obtain l d t where e: "e = l @ [64] @ d @ [46] @ t"
    and ne: "l \<noteq> []" "d \<noteq> []" "t \<noteq> []"
    and cls: "list_all not_space_or_at l" "list_all not_space_or_at d" "list_all not_space_or_at t"
    unfolding email_shape_def by blast
  have tail: "match_here [Plus not_space_or_at, Eol] False t"
    unfolding match_here_Plus match_here_Eol using ne cls by simp
  have dom: "match_here [Plus not_space_or_at, One (\<lambda>c. c = 46), Plus not_space_or_at, Eol] False
               (d @ [46] @ t)"
    unfolding match_here_Plus[of _ "One (\<lambda>c. c = 46) # _"]
    by (rule exI[of _ d], rule exI[of _ "[46] @ t"]) (simp add: ne cls tail)
  show "test email_pattern e"
    unfolding email_pattern_def test_Bol e match_here_Plus[of _ "One (\<lambda>c. c = 64) # _"]
    by (rule exI[of _ l], rule exI[of _ "[64] @ d @ [46] @ t"]) (use dom in \<open>simp add: ne cls\<close>)
qed

lemma star_one_contains: "match_here [Star d, One cls] b s \<Longrightarrow> list_ex cls s"
  by (induction s arbitrary: b) (auto split: if_splits)

lemma search_containing: "search (containing cls) b s = list_ex cls s"
proof (induction s arbitrary: b)
  case Nil
  then show ?case by (simp add: containing_def)
next
  case (Cons c cs)
  show ?case
  proof (cases "cls c")
    case True
    then show ?thesis by (simp add: containing_def)
  next
    case False
    have "match_here (containing cls) b (c # cs) \<Longrightarrow> list_ex cls cs"
      using False star_one_contains[of dot cls False cs]
      by (auto simp: containing_def split: if_splits)
    with False Cons.IH[of False] show ?thesis by auto
  qed
qed

lemma test_containing: "test (containing cls) s = list_ex cls s"
  by (simp add: test_def search_containing)

section \<open>Lemmas on the scripts\<close>

lemma exec_ok: "fst (aws tr c) = 0 \<Longrightarrow> exec aws c tr k = k (snd (aws tr c)) (tr @ [c])"
  by (simp add: exec_def)

text \<open>A property of every command holds of the whole run.\<close>

lemma exec_all:
  assumes "list_all P tr" "P c" "\<And>out tr'. list_all P tr' \<Longrightarrow> list_all P (fst (k out tr'))"
  shows "list_all P (fst (exec aws c tr k))"
  using assms by (simp add: exec_def)

lemma deploy_never_deletes: "list_all (\<lambda>c. c \<noteq> DeleteStack) (fst (deploy REGION aws))"
  unfolding deploy_def deploy_stack_def retrieve_outputs_def frontend_def
  by (intro exec_all conjI impI | simp)+

text \<open>A run only goes on from the commands it has run.\<close>

lemma exec_issues:
  assumes "p = tr @ [c]" "\<And>out tr'. prefix tr' (fst (k out tr'))"
  shows "prefix p (fst (exec aws c tr k))"
  using assms by (simp add: exec_def)

lemma exec_prefix:
  assumes "\<And>out tr'. prefix tr' (fst (k out tr'))"
  shows "prefix tr (fst (exec aws c tr k))"
  using exec_issues[OF refl assms, of tr c aws] by (meson append_prefixD)

lemma frontend_prefix: "prefix tr (fst (frontend REGION aws u c b d w tr))"
  unfolding frontend_def by (intro exec_prefix) simp

lemma retrieve_outputs_prefix:
  assumes "\<And>u c b d w tr'. prefix tr' (fst (k u c b d w tr'))"
  shows "prefix tr (fst (retrieve_outputs aws tr k))"
  unfolding retrieve_outputs_def by (intro exec_prefix assms)

lemma branch_update:
  assumes "fst (aws [] ValidateTemplate) = 0" "fst (aws [ValidateTemplate] DescribeStacks) = 0"
  shows "prefix [ValidateTemplate, DescribeStacks, CreateChangeSet] (fst (deploy REGION aws))"
  using assms unfolding deploy_def deploy_stack_def
  by (simp add: exec_ok[of aws "[]"])
     (rule exec_issues, simp, intro exec_prefix retrieve_outputs_prefix frontend_prefix)

lemma branch_create:
  assumes "fst (aws [] ValidateTemplate) = 0" "fst (aws [ValidateTemplate] DescribeStacks) \<noteq> 0"
  shows "prefix [ValidateTemplate, DescribeStacks, CreateStack] (fst (deploy REGION aws))"
  using assms unfolding deploy_def deploy_stack_def
  by (simp add: exec_ok[of aws "[]"])
     (rule exec_issues, simp, intro exec_prefix retrieve_outputs_prefix frontend_prefix)

text \<open>Under \<^verbatim>\<open>set -e\<close> a run stops at the first failing command.\<close>

lemma orderly_Nil: "orderly aws []"
  by (simp add: orderly_def)

lemma orderly_snoc:
  "orderly aws (tr @ [c]) = (orderly aws tr \<and> (c = DescribeStacks \<or> fst (aws tr c) = 0))"
  by (auto simp: orderly_def list_all_iff nth_append)

lemma exec_halts:
  assumes "orderly aws tr" "c \<noteq> DescribeStacks"
    and "\<And>out tr'. orderly aws tr' \<Longrightarrow> halts_at_failure aws (k out tr')"
  shows "halts_at_failure aws (exec aws c tr k)"
  using assms by (simp add: exec_def halts_at_failure_def orderly_snoc)

lemma frontend_halts:
  "orderly aws tr \<Longrightarrow> halts_at_failure aws (frontend REGION aws u c b d w tr)"
  unfolding frontend_def
  by (intro exec_halts; simp add: halts_at_failure_def)

lemma retrieve_outputs_halts:
  assumes "orderly aws tr"
    and "\<And>u c b d w tr'. orderly aws tr' \<Longrightarrow> halts_at_failure aws (k u c b d w tr')"
  shows "halts_at_failure aws (retrieve_outputs aws tr k)"
  unfolding retrieve_outputs_def
  by (intro exec_halts; simp add: assms)

lemma deploy_stack_halts:
  assumes "orderly aws tr"
    and "\<And>tr'. orderly aws tr' \<Longrightarrow> halts_at_failure aws (k tr')"
  shows "halts_at_failure aws (deploy_stack aws tr k)"
proof -
  have probed: "orderly aws (tr @ [DescribeStacks])"
    using assms(1) by (simp add: orderly_snoc)
  show ?thesis
  proof (cases "fst (aws tr DescribeStacks) = 0")
    case True
    then show ?thesis
      unfolding deploy_stack_def by (simp, intro exec_halts; simp add: assms(2) probed)
  next
    case False
    then show ?thesis
      unfolding deploy_stack_def by (simp, intro exec_halts; simp add: assms(2) probed)
  qed
qed

lemma deploy_halts: "halts_at_failure aws (deploy REGION aws)"
  unfolding deploy_def
  by (intro exec_halts deploy_stack_halts retrieve_outputs_halts frontend_halts;
      simp add: orderly_Nil)

text \<open>The text the description of the stack prints reaches no command.\<close>

lemma exec_printing:
  assumes "c \<noteq> DescribeStacks" "\<And>out tr'. k' out tr' = k out tr'"
  shows "exec (printing text aws) c tr k' = exec aws c tr k"
  using assms by (simp add: exec_def printing_def)

lemma frontend_printing:
  "frontend REGION (printing text aws) u c b d w tr = frontend REGION aws u c b d w tr"
  unfolding frontend_def by (intro exec_printing; simp)

lemma retrieve_outputs_printing:
  assumes "\<And>u c b d w tr'. k' u c b d w tr' = k u c b d w tr'"
  shows "retrieve_outputs (printing text aws) tr k' = retrieve_outputs aws tr k"
  unfolding retrieve_outputs_def by (intro exec_printing; simp add: assms)

lemma deploy_stack_printing:
  assumes "\<And>tr'. k' tr' = k tr'"
  shows "deploy_stack (printing text aws) tr k' = deploy_stack aws tr k"
proof -
  have probe: "fst (printing text aws tr DescribeStacks) = fst (aws tr DescribeStacks)"
    by (simp add: printing_def)
  have upd: "exec (printing text aws) CreateChangeSet (tr @ [DescribeStacks]) (\<lambda>_ tr.
        exec (printing text aws) WaitChangeSetCreateComplete tr (\<lambda>_ tr.
        exec (printing text aws) ExecuteChangeSet tr (\<lambda>_ tr.
        exec (printing text aws) WaitStackUpdateComplete tr (\<lambda>_ tr. k' tr)))) =
      exec aws CreateChangeSet (tr @ [DescribeStacks]) (\<lambda>_ tr.
        exec aws WaitChangeSetCreateComplete tr (\<lambda>_ tr.
        exec aws ExecuteChangeSet tr (\<lambda>_ tr.
        exec aws WaitStackUpdateComplete tr (\<lambda>_ tr. k tr))))"
    by (intro exec_printing; simp add: assms)
  have cre: "exec (printing text aws) CreateStack (tr @ [DescribeStacks]) (\<lambda>_ tr.
        exec (printing text aws) WaitStackCreateComplete tr (\<lambda>_ tr. k' tr)) =
      exec aws CreateStack (tr @ [DescribeStacks]) (\<lambda>_ tr.
        exec aws WaitStackCreateComplete tr (\<lambda>_ tr. k tr))"
    by (intro exec_printing; simp add: assms)
  show ?thesis
    unfolding deploy_stack_def probe upd cre ..
qed

lemma deploy_printing: "deploy REGION (printing text aws) = deploy REGION aws"
  unfolding deploy_def
  by (intro exec_printing deploy_stack_printing retrieve_outputs_printing frontend_printing) simp

text \<open>Steps 3 to 8, once step 2 has succeeded.\<close>

lemma succeeds_append:
  "succeeds aws tr (xs @ ys) = (succeeds aws tr xs \<and> succeeds aws (tr @ xs) ys)"
  by (induction xs arbitrary: tr) simp_all

lemma deploy_after_stack:
  "stack_done aws tr \<Longrightarrow> deploy REGION aws = retrieve_outputs aws tr (frontend REGION aws)"
  by (cases "fst (aws [ValidateTemplate] DescribeStacks) = 0")
     (simp_all add: stack_done_def deploy_def deploy_stack_def exec_def)

lemma retrieve_outputs_ok:
  "succeeds aws tr output_queries \<Longrightarrow>
   retrieve_outputs aws tr k =
     k (printed aws tr 0) (printed aws tr 1) (printed aws tr 2) (printed aws tr 3)
       (printed aws tr 4) (tr @ output_queries)"
  by (simp add: output_queries_def retrieve_outputs_def exec_def printed_def)

lemma retrieve_outputs_failed:
  assumes "j < 5" "succeeds aws tr (take j output_queries)"
    and "fst (aws (tr @ take j output_queries) (output_queries ! j)) \<noteq> 0"
  shows "retrieve_outputs aws tr k =
     (tr @ take (Suc j) output_queries, fst (aws (tr @ take j output_queries) (output_queries ! j)))"
proof -
  from assms(1) consider "j = 0" | "j = 1" | "j = 2" | "j = 3" | "j = 4" by linarith
  then show ?thesis
  proof cases
    case 1 with assms show ?thesis
      by (simp add: output_queries_def retrieve_outputs_def exec_def)
  next
    case 2 with assms show ?thesis
      by (simp add: output_queries_def retrieve_outputs_def exec_def)
  next
    case 3 with assms show ?thesis
      by (simp add: output_queries_def retrieve_outputs_def exec_def numeral_2_eq_2)
  next
    case 4 with assms show ?thesis
      by (simp add: output_queries_def retrieve_outputs_def exec_def numeral_3_eq_3)
  next
    case 5 with assms show ?thesis
      by (simp add: output_queries_def retrieve_outputs_def exec_def eval_nat_numeral)
  qed
qed

lemma frontend_configures:
  "prefix (tr @ [WriteEnvProduction u c REGION]) (fst (frontend REGION aws u c b d w tr))"
  unfolding frontend_def
  by (rule exec_issues, simp, intro exec_prefix) simp

lemma frontend_ok:
  assumes "succeeds aws (tr @ output_queries)
             (frontend_steps REGION aws tr @ [invalidation_wait REGION aws tr])"
  shows "frontend REGION aws (printed aws tr 0) (printed aws tr 1) (printed aws tr 2)
           (printed aws tr 3) w (tr @ output_queries) =
         (tr @ output_queries @ frontend_steps REGION aws tr @ [invalidation_wait REGION aws tr], 0)"
  using assms
  by (simp add: frontend_def frontend_steps_def invalidation_wait_def exec_def)

section \<open>Lemmas on the form and the credentials\<close>

lemma validateForm_acceptable: "fst (validateForm st) = acceptable (formData st)"
  by (simp add: validateForm_def acceptable_def Let_def test_containing test_email_pattern
      not_less)

lemma validateForm_error: "fst (validateForm st) \<or> error (snd (validateForm st)) \<noteq> []"
  by (simp add: validateForm_def Let_def)

lemma alphabet_alphanumeric: "list_all alphanumeric alphabet"
  by (simp add: alphabet_def alphanumeric_def)

lemma length_alphabet: "length alphabet = 62"
  by (simp add: alphabet_def)

section \<open>Theorems\<close>

subsection \<open>The credential manager\<close>




text \<open>
  C8. Every credential the credential manager generates, which it does when none exists
  at the path and none is supplied, has at least 32 characters, all of them letters or
  digits, and passes the check of the 20-character minimum.
\<close>

theorem generated_credential_policy:
  "32 \<le> length (generateCredential random) \<and>
   list_all alphanumeric (generateCredential random) \<and>
   meets_policy (generateCredential random) \<and>
   (store path = None \<longrightarrow>
      fst (ensureCredential store path None generateCredential random) =
        Inr (generateCredential random))"
proof -
  have "alphanumeric (alphabet ! k)" if "k < length alphabet" for k
    using alphabet_alphanumeric that by (simp add: list_all_length)
  then have "list_all alphanumeric (generateCredential random)"
    by (simp add: generateCredential_def list_all_iff length_alphabet)
  then show ?thesis
    by (simp add: generateCredential_def target_length_def meets_policy_def minimum_length_def
        ensureCredential_def persist_once_def)
qed

theorem generated_credential_policy_witness:
  "Map.empty example_location = (None :: string option) \<and>
   generateCredential (\<lambda>i. 7 * i + 3) = ''DKRYfmt07ELSZgnu18FMTahov29GNUbi'' \<and>
   32 \<le> length (generateCredential (\<lambda>i. 7 * i + 3)) \<and>
   list_all alphanumeric (generateCredential (\<lambda>i. 7 * i + 3)) \<and>
   meets_policy (generateCredential (\<lambda>i. 7 * i + 3)) \<and>
   fst (ensureCredential Map.empty example_location None generateCredential (\<lambda>i. 7 * i + 3)) =
     Inr ''DKRYfmt07ELSZgnu18FMTahov29GNUbi''"
proof -
  have generated: "generateCredential (\<lambda>i. 7 * i + 3) = ''DKRYfmt07ELSZgnu18FMTahov29GNUbi''"
    by code_simp
  show ?thesis
    using generated_credential_policy[of "\<lambda>i. 7 * i + 3" Map.empty example_location]
    by (simp add: generated)
qed

subsection \<open>The deployment script\<close>

text \<open>
  C2. The publish step should upload the service-worker file with the no-cache header,
  as it does \<^verbatim>\<open>index.html\<close>, and after the long-cache uploads. The script excludes
  \<^verbatim>\<open>service-worker.js\<close> from the synchronisation for that purpose and then copies only
  \<^verbatim>\<open>index.html\<close>: whatever the build holds and whatever the synchronisation transfers,
  no upload of \<^verbatim>\<open>service-worker.js\<close> is made, with any header.
\<close>

theorem service_worker_never_uploaded:
  "list_all (\<lambda>u. fst u \<noteq> ''service-worker.js'') (publish build transfers)"
  by (auto simp: publish_def s3_sync_def s3_cp_index_def sync_excludes_def list_all_iff)

text \<open>
  The publish step on a build of \<^verbatim>\<open>index.html\<close>, \<^verbatim>\<open>main.js\<close> and \<^verbatim>\<open>service-worker.js\<close>, and on
  one where the service worker is called \<^verbatim>\<open>sw.js\<close>, a name the exclusions do not know.
\<close>

theorem service_worker_scenarios:
  "publish [''index.html'', ''main.js'', ''service-worker.js''] (\<lambda>f. True) =
     [(''main.js'', long_cache), (''index.html'', no_cache)] \<and>
   list_all (\<lambda>u. fst u \<noteq> ''service-worker.js'')
     (publish [''index.html'', ''main.js'', ''service-worker.js''] (\<lambda>f. True)) \<and>
   publish [''index.html'', ''main.js'', ''sw.js''] (\<lambda>f. True) =
     [(''main.js'', long_cache), (''sw.js'', long_cache), (''index.html'', no_cache)]"
  using service_worker_never_uploaded[of "[''index.html'', ''main.js'', ''service-worker.js'']"
      "\<lambda>f. True"]
  by (simp add: publish_def s3_sync_def s3_cp_index_def sync_excludes_def)

text \<open>
  C3. An update with a template identical to the deployed one should end as a success
  without changes. The script does not get there. It handles no failure of the update
  path: when the change set has been created and the wait for it fails, \<^verbatim>\<open>set -e\<close> ends the
  run with the status of the wait, before the change set is executed and before the
  outputs are read or the front end is built and published. That is what happens with an
  unchanged template, where the service sets the change set to \<^verbatim>\<open>FAILED\<close> for want of
  changes and the wait fails with status 255.
\<close>

theorem change_set_failure_ends_run:
  "fst (aws [] ValidateTemplate) = 0 \<and>
   fst (aws [ValidateTemplate] DescribeStacks) = 0 \<and>
   fst (aws [ValidateTemplate, DescribeStacks] CreateChangeSet) = 0 \<and>
   fst (aws [ValidateTemplate, DescribeStacks, CreateChangeSet] WaitChangeSetCreateComplete) \<noteq> 0 \<longrightarrow>
   deploy REGION aws =
     ([ValidateTemplate, DescribeStacks, CreateChangeSet, WaitChangeSetCreateComplete],
      fst (aws [ValidateTemplate, DescribeStacks, CreateChangeSet] WaitChangeSetCreateComplete))"
  by (simp add: deploy_def deploy_stack_def exec_def)

theorem deploy_unchanged_template:
  "deploy ''us-east-1'' unchanged_template =
     ([ValidateTemplate, DescribeStacks, CreateChangeSet, WaitChangeSetCreateComplete], 255)"
  using change_set_failure_ends_run[of unchanged_template "''us-east-1''"]
  by (simp add: unchanged_template_def failing_def answering_def)

text \<open>
  C5 (as amended). The deployment script has no recreate prompt and reads no reply. In
  every run, whatever the state of the stack, no delete call is issued to the
  provisioning service; a stack that the describe call finds is sent to the change-set
  update; and the run ends in failure exactly where one of its commands fails, with the
  status of that command: every command before it succeeded, and a run that ends with
  status 0 has no failed command but, possibly, the probe.
\<close>

theorem deploy_without_prompt:
  "list_all (\<lambda>c. c \<noteq> DeleteStack) (fst (deploy REGION aws)) \<and>
   halts_at_failure aws (deploy REGION aws) \<and>
   (fst (aws [] ValidateTemplate) = 0 \<and> fst (aws [ValidateTemplate] DescribeStacks) = 0 \<longrightarrow>
      prefix [ValidateTemplate, DescribeStacks, CreateChangeSet] (fst (deploy REGION aws)))"
  using deploy_never_deletes[of REGION aws] deploy_halts[of aws REGION]
    branch_update[of aws REGION]
  by blast

theorem deploy_without_prompt_witness:
  "fst (failing ExecuteChangeSet 255 (answering ''UPDATE_ROLLBACK_COMPLETE'' stack_outputs)
         [] ValidateTemplate) = 0 \<and>
   fst (failing ExecuteChangeSet 255 (answering ''UPDATE_ROLLBACK_COMPLETE'' stack_outputs)
         [ValidateTemplate] DescribeStacks) = 0 \<and>
   deploy ''us-east-1''
     (failing ExecuteChangeSet 255 (answering ''UPDATE_ROLLBACK_COMPLETE'' stack_outputs)) =
     ([ValidateTemplate, DescribeStacks, CreateChangeSet, WaitChangeSetCreateComplete,
       ExecuteChangeSet], 255) \<and>
   list_all (\<lambda>c. c \<noteq> DeleteStack) (fst (deploy ''us-east-1''
     (failing ExecuteChangeSet 255 (answering ''UPDATE_ROLLBACK_COMPLETE'' stack_outputs)))) \<and>
   halts_at_failure
     (failing ExecuteChangeSet 255 (answering ''UPDATE_ROLLBACK_COMPLETE'' stack_outputs))
     (deploy ''us-east-1''
       (failing ExecuteChangeSet 255 (answering ''UPDATE_ROLLBACK_COMPLETE'' stack_outputs)))"
proof -
  have run: "deploy ''us-east-1''
     (failing ExecuteChangeSet 255 (answering ''UPDATE_ROLLBACK_COMPLETE'' stack_outputs)) =
     ([ValidateTemplate, DescribeStacks, CreateChangeSet, WaitChangeSetCreateComplete,
       ExecuteChangeSet], 255)"
    by (simp add: deploy_def deploy_stack_def exec_def failing_def answering_def)
  show ?thesis
    using deploy_without_prompt[of "''us-east-1''"
        "failing ExecuteChangeSet 255 (answering ''UPDATE_ROLLBACK_COMPLETE'' stack_outputs)"]
    by (simp add: run failing_def answering_def)
qed

text \<open>
  C5 as stated fails: with the stack in \<^verbatim>\<open>UPDATE_ROLLBACK_COMPLETE\<close>, a failed state, and
  a service that accepts the update, the run changes the stack and ends with status 0.
  The script reads no input, so the run is this one whatever the operator types, "no"
  included.
\<close>

theorem failed_stack_updated:
  "documented_state ''UPDATE_ROLLBACK_COMPLETE'' = Some FAILED \<and>
   deploy ''us-east-1'' (answering ''UPDATE_ROLLBACK_COMPLETE'' stack_outputs) =
     (full_update ''us-east-1'' stack_outputs, 0)"
  by (simp add: documented_state_def deploy_def deploy_stack_def retrieve_outputs_def
      frontend_def exec_def answering_def full_update_def)

text \<open>
  C6 (as amended). The probe of the stack is the exit status of the describe call and
  nothing else: a describe call that fails, for a stack that is not found or for any
  other reason, leads to the create path; one that succeeds leads to the update path;
  the status string in the description is never read, so that the run is the same
  whatever the description says.
\<close>

theorem probe_by_exit_status:
  "(fst (aws [] ValidateTemplate) = 0 \<and> fst (aws [ValidateTemplate] DescribeStacks) \<noteq> 0 \<longrightarrow>
      prefix [ValidateTemplate, DescribeStacks, CreateStack] (fst (deploy REGION aws))) \<and>
   (fst (aws [] ValidateTemplate) = 0 \<and> fst (aws [ValidateTemplate] DescribeStacks) = 0 \<longrightarrow>
      prefix [ValidateTemplate, DescribeStacks, CreateChangeSet] (fst (deploy REGION aws))) \<and>
   deploy REGION (printing text aws) = deploy REGION aws"
  using branch_create[of aws REGION] branch_update[of aws REGION] deploy_printing[of REGION "text" aws]
  by blast

theorem probe_by_exit_status_witness:
  "fst (first_deployment [] ValidateTemplate) = 0 \<and>
   fst (first_deployment [ValidateTemplate] DescribeStacks) \<noteq> 0 \<and>
   deploy ''us-east-1'' first_deployment = (full_create ''us-east-1'' stack_outputs, 0) \<and>
   prefix [ValidateTemplate, DescribeStacks, CreateStack] (fst (deploy ''us-east-1'' first_deployment)) \<and>
   fst (answering ''UPDATE_COMPLETE'' stack_outputs [] ValidateTemplate) = 0 \<and>
   fst (answering ''UPDATE_COMPLETE'' stack_outputs [ValidateTemplate] DescribeStacks) = 0 \<and>
   prefix [ValidateTemplate, DescribeStacks, CreateChangeSet]
     (fst (deploy ''us-east-1'' (answering ''UPDATE_COMPLETE'' stack_outputs))) \<and>
   deploy ''us-east-1'' (printing ''IMPORT_COMPLETE'' (answering ''UPDATE_COMPLETE'' stack_outputs)) =
     (full_update ''us-east-1'' stack_outputs, 0)"
proof -
  have run: "deploy ''us-east-1'' (answering ''UPDATE_COMPLETE'' stack_outputs) =
      (full_update ''us-east-1'' stack_outputs, 0)"
    by (simp add: deploy_def deploy_stack_def retrieve_outputs_def frontend_def exec_def
        answering_def full_update_def)
  have created: "deploy ''us-east-1'' first_deployment = (full_create ''us-east-1'' stack_outputs, 0)"
    by (simp add: deploy_def deploy_stack_def retrieve_outputs_def frontend_def exec_def
        first_deployment_def no_stack_def answering_def full_create_def)
  show ?thesis
    using probe_by_exit_status[of first_deployment "''us-east-1''"]
      probe_by_exit_status[of "answering ''UPDATE_COMPLETE'' stack_outputs" "''us-east-1''"
        "''IMPORT_COMPLETE''"]
    by (simp add: run created first_deployment_def no_stack_def answering_def)
qed

text \<open>
  C6 as stated fails: \<^verbatim>\<open>IMPORT_COMPLETE\<close> is a status the documented lists do not name, and
  a run that finds the stack in it is no configuration error: it updates the stack and
  ends with status 0.
\<close>

theorem unknown_status_updated:
  "documented_state ''IMPORT_COMPLETE'' = None \<and>
   deploy ''us-east-1'' (answering ''IMPORT_COMPLETE'' stack_outputs) =
     (full_update ''us-east-1'' stack_outputs, 0)"
  by (simp add: documented_state_def deploy_def deploy_stack_def retrieve_outputs_def
      frontend_def exec_def answering_def full_update_def)

text \<open>
  C7 (as amended). After the stack has reached its final state the script queries the
  five outputs UserPoolId, UserPoolClientId, WebsiteBucketName, CloudFrontDistributionId
  and WebsiteURL, each once and in this order, and uses what the queries print without
  checking it. A query command that fails ends the run at once with its status, nothing
  is retried and no step of the front end runs. When the five queries succeed the
  configuration of the front end is written next, from what the first two printed; and
  when the commands after them succeed too, the run builds, publishes to the bucket the
  third query printed, invalidates the distribution the fourth printed and ends with
  status 0, whatever the queries printed, nothing included.
\<close>

theorem outputs_unchecked:
  "stack_done aws tr \<longrightarrow>
     (\<forall>j<5. succeeds aws tr (take j output_queries) \<and>
             fst (aws (tr @ take j output_queries) (output_queries ! j)) \<noteq> 0 \<longrightarrow>
        deploy REGION aws =
          (tr @ take (Suc j) output_queries,
           fst (aws (tr @ take j output_queries) (output_queries ! j)))) \<and>
     (succeeds aws tr output_queries \<longrightarrow>
        prefix (tr @ output_queries @
                  [WriteEnvProduction (printed aws tr 0) (printed aws tr 1) REGION])
          (fst (deploy REGION aws))) \<and>
     (succeeds aws tr
        (output_queries @ frontend_steps REGION aws tr @ [invalidation_wait REGION aws tr]) \<longrightarrow>
        deploy REGION aws =
          (tr @ output_queries @ frontend_steps REGION aws tr @ [invalidation_wait REGION aws tr],
           0))"
proof (intro impI conjI allI)
  fix j
  assume stack: "stack_done aws tr" and "j < 5"
    and "succeeds aws tr (take j output_queries) \<and>
         fst (aws (tr @ take j output_queries) (output_queries ! j)) \<noteq> 0"
  then show "deploy REGION aws =
      (tr @ take (Suc j) output_queries,
       fst (aws (tr @ take j output_queries) (output_queries ! j)))"
    using retrieve_outputs_failed[of j aws tr "frontend REGION aws"]
    by (simp add: deploy_after_stack[OF stack])
next
  assume stack: "stack_done aws tr" and ok: "succeeds aws tr output_queries"
  have "prefix ((tr @ output_queries) @
                  [WriteEnvProduction (printed aws tr 0) (printed aws tr 1) REGION])
          (fst (deploy REGION aws))"
    unfolding deploy_after_stack[OF stack] retrieve_outputs_ok[OF ok]
    by (rule frontend_configures)
  then show "prefix (tr @ output_queries @
                  [WriteEnvProduction (printed aws tr 0) (printed aws tr 1) REGION])
          (fst (deploy REGION aws))"
    by simp
next
  assume stack: "stack_done aws tr"
    and all: "succeeds aws tr
        (output_queries @ frontend_steps REGION aws tr @ [invalidation_wait REGION aws tr])"
  from all have "succeeds aws tr output_queries \<and>
      succeeds aws (tr @ output_queries)
        (frontend_steps REGION aws tr @ [invalidation_wait REGION aws tr])"
    by (rule succeeds_append[THEN iffD1])
  then have ok: "succeeds aws tr output_queries"
    and rest: "succeeds aws (tr @ output_queries)
        (frontend_steps REGION aws tr @ [invalidation_wait REGION aws tr])"
    by blast+
  show "deploy REGION aws =
      (tr @ output_queries @ frontend_steps REGION aws tr @ [invalidation_wait REGION aws tr], 0)"
    unfolding deploy_after_stack[OF stack] retrieve_outputs_ok[OF ok]
    by (rule frontend_ok[OF rest])
qed

theorem outputs_unchecked_witness:
  "stack_done (answering ''UPDATE_COMPLETE'' (\<lambda>key. []))
     [ValidateTemplate, DescribeStacks, CreateChangeSet, WaitChangeSetCreateComplete,
      ExecuteChangeSet, WaitStackUpdateComplete] \<and>
   deploy ''us-east-1'' (answering ''UPDATE_COMPLETE'' (\<lambda>key. [])) =
     (full_update ''us-east-1'' (\<lambda>key. []), 0) \<and>
   stack_done
     (failing (DescribeOutput ''WebsiteBucketName'') 255 (answering ''UPDATE_COMPLETE'' stack_outputs))
     [ValidateTemplate, DescribeStacks, CreateChangeSet, WaitChangeSetCreateComplete,
      ExecuteChangeSet, WaitStackUpdateComplete] \<and>
   deploy ''us-east-1''
     (failing (DescribeOutput ''WebsiteBucketName'') 255 (answering ''UPDATE_COMPLETE'' stack_outputs)) =
     ([ValidateTemplate, DescribeStacks, CreateChangeSet, WaitChangeSetCreateComplete,
       ExecuteChangeSet, WaitStackUpdateComplete, DescribeOutput ''UserPoolId'',
       DescribeOutput ''UserPoolClientId'', DescribeOutput ''WebsiteBucketName''], 255)"
proof -
  let ?tr = "[ValidateTemplate, DescribeStacks, CreateChangeSet, WaitChangeSetCreateComplete,
      ExecuteChangeSet, WaitStackUpdateComplete]"
  let ?empty = "answering ''UPDATE_COMPLETE'' (\<lambda>key. [])"
  let ?broken = "failing (DescribeOutput ''WebsiteBucketName'') 255
      (answering ''UPDATE_COMPLETE'' stack_outputs)"
  have done1: "stack_done ?empty ?tr"
    by (simp add: stack_done_def answering_def)
  have done2: "stack_done ?broken ?tr"
    by (simp add: stack_done_def answering_def failing_def)
  have all: "succeeds ?empty ?tr
      (output_queries @ frontend_steps ''us-east-1'' ?empty ?tr @
       [invalidation_wait ''us-east-1'' ?empty ?tr])"
    by (simp add: output_queries_def frontend_steps_def invalidation_wait_def answering_def)
  have plan: "?tr @ output_queries @ frontend_steps ''us-east-1'' ?empty ?tr @
       [invalidation_wait ''us-east-1'' ?empty ?tr] = full_update ''us-east-1'' (\<lambda>key. [])"
    by (simp add: output_queries_def frontend_steps_def invalidation_wait_def printed_def
        answering_def full_update_def)
  have two: "succeeds ?broken ?tr (take 2 output_queries) \<and>
      fst (?broken (?tr @ take 2 output_queries) (output_queries ! 2)) \<noteq> 0"
    by (simp add: output_queries_def answering_def failing_def numeral_2_eq_2)
  have third: "take (Suc 2) output_queries =
      [DescribeOutput ''UserPoolId'', DescribeOutput ''UserPoolClientId'',
       DescribeOutput ''WebsiteBucketName'']"
    "fst (?broken (?tr @ take 2 output_queries) (output_queries ! 2)) = 255"
    by (simp_all add: output_queries_def failing_def numeral_2_eq_2 numeral_3_eq_3)
  have "deploy ''us-east-1'' ?empty =
      (?tr @ output_queries @ frontend_steps ''us-east-1'' ?empty ?tr @
       [invalidation_wait ''us-east-1'' ?empty ?tr], 0)"
    using outputs_unchecked[of ?empty ?tr "''us-east-1''"] done1 all by blast
  then have run1: "deploy ''us-east-1'' ?empty = (full_update ''us-east-1'' (\<lambda>key. []), 0)"
    by (simp only: plan)
  have "(2::nat) < 5" by simp
  then have "deploy ''us-east-1'' ?broken =
      (?tr @ take (Suc 2) output_queries,
       fst (?broken (?tr @ take 2 output_queries) (output_queries ! 2)))"
    using outputs_unchecked[of ?broken ?tr "''us-east-1''"] done2 two by blast
  then have run2: "deploy ''us-east-1'' ?broken =
      (?tr @ [DescribeOutput ''UserPoolId'', DescribeOutput ''UserPoolClientId'',
         DescribeOutput ''WebsiteBucketName''], 255)"
    by (simp only: third)
  show ?thesis
    using done1 done2 run1 run2 by simp
qed

text \<open>
  C7 as stated fails: with the output \<^verbatim>\<open>UserPoolId\<close> missing, so that its query prints
  nothing, the run does not fail; it writes the empty value into the configuration of
  the front end, builds, publishes and ends with status 0.
\<close>

theorem missing_output_published:
  "without ''UserPoolId'' stack_outputs ''UserPoolId'' = [] \<and>
   deploy ''us-east-1'' (answering ''CREATE_COMPLETE'' (without ''UserPoolId'' stack_outputs)) =
     (full_update ''us-east-1'' (without ''UserPoolId'' stack_outputs), 0) \<and>
   full_update ''us-east-1'' (without ''UserPoolId'' stack_outputs) ! 11 =
     WriteEnvProduction [] ''7k2m9q4r6s8t0u1v3w5x'' ''us-east-1''"
  by (simp add: deploy_def deploy_stack_def retrieve_outputs_def frontend_def exec_def
      answering_def full_update_def without_def stack_outputs_def)

subsection \<open>The stack-deletion script\<close>

text \<open>
  C10 (as amended). For every run of the stack-deletion script: when the input ends
  before a complete reply to the confirmation prompt, the script ends with status 1 and
  no command issued; a reply other than "yes" (each letter in either case) ends it with
  status 0 and no command issued. After "yes", when the query for the name of the
  website bucket prints a name, whether the query succeeded or not, the emptying of that
  bucket is issued, its failure ignored, and then the stack delete; when the query
  prints nothing, the stack delete is issued without emptying any bucket. A stack delete
  that fails ends the script with its status and without the wait; otherwise the script
  waits for the deletion and ends with the status of the wait, so with status 0 only
  when the wait returned successfully.
\<close>

theorem destroy_confirmation:
  "destroy aws None = ([], 1) \<and>
   (\<not> yes_reply r \<longrightarrow> destroy aws (Some r) = ([], 0)) \<and>
   (snd (aws [] (DescribeOutput ''WebsiteBucketName'')) \<noteq> [] \<longrightarrow>
      before_delete aws =
        [DescribeOutput ''WebsiteBucketName'',
         S3RmRecursive (snd (aws [] (DescribeOutput ''WebsiteBucketName'')))]) \<and>
   (snd (aws [] (DescribeOutput ''WebsiteBucketName'')) = [] \<longrightarrow>
      before_delete aws = [DescribeOutput ''WebsiteBucketName'']) \<and>
   (yes_reply r \<and> fst (aws (before_delete aws) DeleteStack) \<noteq> 0 \<longrightarrow>
      destroy aws (Some r) =
        (before_delete aws @ [DeleteStack], fst (aws (before_delete aws) DeleteStack))) \<and>
   (yes_reply r \<and> fst (aws (before_delete aws) DeleteStack) = 0 \<longrightarrow>
      destroy aws (Some r) =
        (before_delete aws @ [DeleteStack, WaitStackDeleteComplete],
         fst (aws (before_delete aws @ [DeleteStack]) WaitStackDeleteComplete)))"
  by (simp add: destroy_def test_yes_pattern exec_def Let_def before_delete_def)

theorem destroy_confirmation_witness:
  "destroy (answering ''CREATE_COMPLETE'' stack_outputs) None = ([], 1) \<and>
   \<not> yes_reply ''no'' \<and>
   destroy (answering ''CREATE_COMPLETE'' stack_outputs) (Some ''no'') = ([], 0) \<and>
   yes_reply ''YES'' \<and>
   destroy (answering ''CREATE_COMPLETE'' stack_outputs) (Some ''YES'') =
     ([DescribeOutput ''WebsiteBucketName'', S3RmRecursive ''cognito-login-website'',
       DeleteStack, WaitStackDeleteComplete], 0) \<and>
   destroy (failing DeleteStack 255 (answering ''CREATE_COMPLETE'' stack_outputs)) (Some ''YES'') =
     ([DescribeOutput ''WebsiteBucketName'', S3RmRecursive ''cognito-login-website'',
       DeleteStack], 255) \<and>
   destroy (failing_with (DescribeOutput ''WebsiteBucketName'') 254 ''partial'' no_stack)
       (Some ''yes'') =
     ([DescribeOutput ''WebsiteBucketName'', S3RmRecursive ''partial'', DeleteStack,
       WaitStackDeleteComplete], 0)"
proof -
  let ?up = "answering ''CREATE_COMPLETE'' stack_outputs"
  let ?stuck = "failing DeleteStack 255 (answering ''CREATE_COMPLETE'' stack_outputs)"
  let ?partial = "failing_with (DescribeOutput ''WebsiteBucketName'') 254 ''partial'' no_stack"
  have replies: "\<not> yes_reply ''no''" "yes_reply ''YES''" "yes_reply ''yes''"
    by (simp_all add: yes_reply_def)
  have before: "before_delete ?up =
      [DescribeOutput ''WebsiteBucketName'', S3RmRecursive ''cognito-login-website'']"
    "before_delete ?stuck =
      [DescribeOutput ''WebsiteBucketName'', S3RmRecursive ''cognito-login-website'']"
    "before_delete ?partial = [DescribeOutput ''WebsiteBucketName'', S3RmRecursive ''partial'']"
    by (simp_all add: before_delete_def answering_def failing_def failing_with_def
        stack_outputs_def)
  show ?thesis
    using destroy_confirmation[of ?up "''no''"] destroy_confirmation[of ?up "''YES''"]
      destroy_confirmation[of ?stuck "''YES''"] destroy_confirmation[of ?partial "''yes''"]
      replies
    by (simp add: before answering_def failing_def failing_with_def no_stack_def)
qed

text \<open>
  C10 as stated fails: after "yes", with no stack whose bucket could be named, the stack
  delete is issued and waited for, and no bucket is emptied before it.
\<close>

theorem delete_without_emptying:
  "yes_reply ''yes'' \<and>
   destroy no_stack (Some ''yes'') =
     ([DescribeOutput ''WebsiteBucketName'', DeleteStack, WaitStackDeleteComplete], 0) \<and>
   \<not> emptied_before_delete (fst (destroy no_stack (Some ''yes'')))"
  by (simp add: destroy_def test_yes_pattern yes_reply_def exec_def no_stack_def
      emptied_before_delete_def empties_bucket_def)

subsection \<open>The sign-up form\<close>

text \<open>
  C9. \<open>validateForm\<close> returns true if and only if first name, last name and email are not
  blank after trimming, the email has the shape of the pattern
  \<^verbatim>\<open>^[^\s@]+@[^\s@]+\.[^\s@]+$\<close>, the password has at least 8 code units and holds a
  lowercase letter, an uppercase letter, a digit and one of \<^verbatim>\<open>!@#$%^&*\<close>, and the password
  equals its confirmation. When it returns false, \<open>handleSubmit\<close> leaves an error message
  set and has no effect on the outside: no \<open>signUp\<close> call is issued.
\<close>

theorem validateForm_iff:
  "fst (validateForm st) = acceptable (formData st) \<and>
   (\<not> fst (validateForm st) \<longrightarrow>
      error (fst (handleSubmit st rejection)) \<noteq> [] \<and> snd (handleSubmit st rejection) = [])"
  using validateForm_error[of "st\<lparr>error := []\<rparr>"]
  by (auto simp: validateForm_acceptable handleSubmit_def Let_def)

theorem validateForm_iff_witness:
  "fst (validateForm ada) \<and> acceptable (formData ada) \<and>
   \<not> fst (validateForm ada_mistyped) \<and> \<not> acceptable (formData ada_mistyped) \<and>
   handleSubmit ada_mistyped None = (ada_mistyped\<lparr>error := ''Passwords do not match''\<rparr>, []) \<and>
   error (fst (handleSubmit ada_mistyped None)) \<noteq> []"
proof -
  have good: "fst (validateForm ada)"
    by (simp add: validateForm_def ada_def js_def trim_def white_space_def test_def
        email_pattern_def containing_def not_space_or_at_def lowercase_def uppercase_def
        digit_def special_def dot_def)
  have bad: "handleSubmit ada_mistyped None =
      (ada_mistyped\<lparr>error := ''Passwords do not match''\<rparr>, [])"
    by (simp add: handleSubmit_def validateForm_def ada_mistyped_def ada_def js_def trim_def
        white_space_def test_def email_pattern_def containing_def not_space_or_at_def
        lowercase_def uppercase_def digit_def special_def dot_def)
  have mistyped: "\<not> fst (validateForm ada_mistyped)"
    by (simp add: validateForm_def ada_mistyped_def ada_def js_def trim_def
        white_space_def test_def email_pattern_def containing_def not_space_or_at_def
        lowercase_def uppercase_def digit_def special_def dot_def)
  show ?thesis
    using validateForm_iff[of ada None] validateForm_iff[of ada_mistyped None] good mistyped
    by (simp add: bad)
qed


end
